theory Spec2Isabelle
  imports Main "HOL-Library.Word"
begin

unbundle bit_operations_syntax

section \<open>Strings and constants of env.h\<close>

text \<open>
  A \<^verbatim>\<open>wcstring\<close> is a sequence of wide characters. A wide character is modelled as a
  32-bit word; a wide string literal \<^verbatim>\<open>L"..."\<close> is the list of its code units.
\<close>

type_synonym wchar_t = "32 word"
type_synonym wcstring = "wchar_t list"

text \<open>\<^verbatim>\<open>#define ARRAY_SEP_STR L"\x1e"\<close> and \<^verbatim>\<open>#define ENV_NULL L"\x1d"\<close>.\<close>

definition ARRAY_SEP_STR :: wcstring where
  "ARRAY_SEP_STR = [0x1e]"

definition ENV_NULL :: wcstring where
  "ENV_NULL = [0x1d]"

text \<open>Widening of a narrow literal, to write names and values in examples.\<close>

definition L :: "string \<Rightarrow> wcstring" where
  "L s = map (\<lambda>c. of_nat (of_char c)) s"

text \<open>
  The mode flags: an anonymous enum with explicit values, passed around as
  \<^verbatim>\<open>typedef uint32_t env_mode_flags_t\<close>.
\<close>

type_synonym env_mode_flags_t = "32 word"

definition ENV_DEFAULT :: env_mode_flags_t where "ENV_DEFAULT = 0"
definition ENV_LOCAL :: env_mode_flags_t where "ENV_LOCAL = 1"
definition ENV_EXPORT :: env_mode_flags_t where "ENV_EXPORT = 2"
definition ENV_UNEXPORT :: env_mode_flags_t where "ENV_UNEXPORT = 16"
definition ENV_GLOBAL :: env_mode_flags_t where "ENV_GLOBAL = 4"
definition ENV_USER :: env_mode_flags_t where "ENV_USER = 8"
definition ENV_UNIVERSAL :: env_mode_flags_t where "ENV_UNIVERSAL = 32"

text \<open>The six flags in the order of the enum, and a combination of flags by bitwise OR.\<close>

definition env_flags :: "env_mode_flags_t list" where
  "env_flags = [ENV_LOCAL, ENV_EXPORT, ENV_UNEXPORT, ENV_GLOBAL, ENV_USER, ENV_UNIVERSAL]"

definition combine :: "env_mode_flags_t list \<Rightarrow> env_mode_flags_t" where
  "combine fs = foldr (OR) fs ENV_DEFAULT"

text \<open>The test \<^verbatim>\<open>mode & flag\<close> used as a condition.\<close>

definition has_flag :: "env_mode_flags_t \<Rightarrow> env_mode_flags_t \<Rightarrow> bool" where
  "has_flag mode f = (mode AND f \<noteq> 0)"

text \<open>
  The return values of \<^verbatim>\<open>env_set\<close>: \<^verbatim>\<open>enum { ENV_OK, ENV_PERM, ENV_SCOPE, ENV_INVALID }\<close>.
  No enumerator has an initialiser, so the first one is zero and each later one is its
  predecessor plus one.
\<close>

definition ENV_OK :: int where "ENV_OK = 0"
definition ENV_PERM :: int where "ENV_PERM = ENV_OK + 1"
definition ENV_SCOPE :: int where "ENV_SCOPE = ENV_PERM + 1"
definition ENV_INVALID :: int where "ENV_INVALID = ENV_SCOPE + 1"

section \<open>The variable entity \<^verbatim>\<open>env_var_t\<close>\<close>

record env_var_t =
  val :: wcstring
  is_missing :: bool
  exportv :: bool

text \<open>The constructors: from a string, and the default one.\<close>

definition env_var :: "wcstring \<Rightarrow> env_var_t" where
  "env_var x = \<lparr>val = x, is_missing = False, exportv = False\<rparr>"

definition env_var_default :: env_var_t where
  "env_var_default = \<lparr>val = [], is_missing = False, exportv = False\<rparr>"

definition set_missing :: "env_var_t \<Rightarrow> env_var_t" where
  "set_missing v = v\<lparr>is_missing := True\<rparr>"

text \<open>\<^verbatim>\<open>empty()\<close>, \<^verbatim>\<open>missing()\<close> and \<^verbatim>\<open>missing_or_empty()\<close>.\<close>

definition empty_var :: "env_var_t \<Rightarrow> bool" where
  "empty_var v = (val v = [] \<or> val v = ENV_NULL)"

definition missing :: "env_var_t \<Rightarrow> bool" where
  "missing v = is_missing v"

definition missing_or_empty :: "env_var_t \<Rightarrow> bool" where
  "missing_or_empty v = (missing v \<or> empty_var v)"

text \<open>
  Modelled from the spec: the macro \<^verbatim>\<open>assert\<close> comes from a header that env.h includes and
  that is not at hand. Section 7: a contract violation by the caller is "fatal (abort)". So
  \<^verbatim>\<open>assert\<close> ends the process when its condition is false, and a member function that
  asserts returns either the failure or the updated object. The second constructor is the
  pop below the global frame.
\<close>

datatype fatal = Assertion_failed | Popped_global_frame

definition set_val :: "env_var_t \<Rightarrow> wcstring \<Rightarrow> fatal + env_var_t" where
  "set_val v s = (if \<not> is_missing v then Inr (v\<lparr>val := s\<rparr>) else Inl Assertion_failed)"

text \<open>
  The overload taking \<^verbatim>\<open>const wchar_t *\<close>: the argument is the array the pointer refers to,
  and the assignment copies the characters before the first NUL.
\<close>

definition c_str_contents :: "wchar_t list \<Rightarrow> wcstring" where
  "c_str_contents a = takeWhile (\<lambda>c. c \<noteq> 0) a"

definition set_val_cstr :: "env_var_t \<Rightarrow> wchar_t list \<Rightarrow> fatal + env_var_t" where
  "set_val_cstr v s =
     (if \<not> is_missing v then Inr (v\<lparr>val := c_str_contents s\<rparr>) else Inl Assertion_failed)"

text \<open>\<^verbatim>\<open>operator==\<close> and \<^verbatim>\<open>operator!=\<close> between two entities.\<close>

definition env_var_eq :: "env_var_t \<Rightarrow> env_var_t \<Rightarrow> bool" where
  "env_var_eq a s = (is_missing a = is_missing s \<and> val a = val s)"

definition env_var_ne :: "env_var_t \<Rightarrow> env_var_t \<Rightarrow> bool" where
  "env_var_ne a v = (val a \<noteq> val v)"

section \<open>The scope stack resolver\<close>

text \<open>
  env.h declares \<^verbatim>\<open>env_get\<close>, \<^verbatim>\<open>env_set\<close>, \<^verbatim>\<open>env_remove\<close>, \<^verbatim>\<open>env_push\<close>, \<^verbatim>\<open>env_pop\<close>,
  \<^verbatim>\<open>create_missing_var\<close> and the snapshot class; their bodies are in a translation unit that
  is not part of the sources at hand. The definitions of this section and of the next follow
  the specification (sections 3, 4.2 and 4.4), and each says so.
\<close>

text \<open>\<^verbatim>\<open>typedef std::map<wcstring, env_var_t> var_table_t\<close>.\<close>

type_synonym var_table_t = "wcstring \<rightharpoonup> env_var_t"

text \<open>
  Modelled from the spec: the body of \<^verbatim>\<open>create_missing_var\<close> (and the object \<^verbatim>\<open>missing_var\<close>)
  is missing. The entity that stands for "variable does not exist": an empty entity on which
  \<^verbatim>\<open>set_missing\<close> was called.
\<close>

definition missing_var :: env_var_t where
  "missing_var = set_missing env_var_default"

text \<open>
  Modelled from the spec: the frame type is missing. Section 3: "a named-to-entity table plus
  a boolean 'introduces new scope' marker".
\<close>

record env_node_t =
  env :: var_table_t
  new_scope :: bool

text \<open>
  Modelled from the spec: the process-wide state is missing. Section 3: the frames form a stack
  whose bottom is the process-global scope; the universal table is a third table. \<open>locals\<close>
  holds the frames pushed above the global frame, innermost first.
\<close>

record env_stack_t =
  locals :: "env_node_t list"
  global_env :: env_node_t
  uvars :: var_table_t

text \<open>
  Modelled from the spec: the state after initialisation is missing. No frame is pushed and
  no variable is set.
\<close>

definition initial_stack :: env_stack_t where
  "initial_stack = \<lparr>locals = [], global_env = \<lparr>env = Map.empty, new_scope = False\<rparr>,
                     uvars = Map.empty\<rparr>"

text \<open>
  Modelled from the spec: identifier validation and the list of read-only names are missing
  ("INVALID when the name fails identifier validation", "a designated read-only name"). Both
  are parameters of the resolver.
\<close>

record env_config =
  valid_var_name :: "wcstring \<Rightarrow> bool"
  is_read_only :: "wcstring \<Rightarrow> bool"

text \<open>
  Modelled from the spec: the lookup in one table is missing. Section 4.2: get returns "the
  first present entity". A table binds a name when it holds a present entity for it.
\<close>

definition find_entry :: "var_table_t \<Rightarrow> wcstring \<Rightarrow> env_var_t option" where
  "find_entry t key =
     (case t key of None \<Rightarrow> None | Some e \<Rightarrow> if missing e then None else Some e)"

text \<open>
  Modelled from the spec: the walk over the local frames is missing. Section 4.2: "search local
  frame stack top-to-bottom", where a frame pushed with \<open>new_scope = true\<close> "isolates name
  lookups in that frame from the caller's locals" and one pushed with \<open>new_scope = false\<close>
  "shares the caller's local bindings".
\<close>

fun find_local :: "env_node_t list \<Rightarrow> wcstring \<Rightarrow> env_var_t option" where
  "find_local [] key = None"
| "find_local (f # fs) key =
     (case find_entry (env f) key of
        Some e \<Rightarrow> Some e
      | None \<Rightarrow> if new_scope f then None else find_local fs key)"

text \<open>
  Modelled from the spec: the test whether a mode names a scope is missing. Section 3 lists
  the scope flags LOCAL, GLOBAL and UNIVERSAL.
\<close>

definition has_scope :: "env_mode_flags_t \<Rightarrow> bool" where
  "has_scope mode = has_flag mode (ENV_LOCAL OR ENV_GLOBAL OR ENV_UNIVERSAL)"

text \<open>
  Modelled from the spec: the choice of the scopes to search is missing. Section 4.2: "if mode
  restricts to a scope, search only there; otherwise search local frame stack
  top-to-bottom, then global frame, then universal table". The local frames are searched
  when the mode names no scope or names LOCAL.
\<close>

definition search_local :: "env_mode_flags_t \<Rightarrow> bool" where
  "search_local mode = (\<not> has_scope mode \<or> has_flag mode ENV_LOCAL)"

text \<open>
  Modelled from the spec: as for the local frames; the global frame is searched when the mode
  names no scope or names GLOBAL.
\<close>

definition search_global :: "env_mode_flags_t \<Rightarrow> bool" where
  "search_global mode = (\<not> has_scope mode \<or> has_flag mode ENV_GLOBAL)"

text \<open>
  Modelled from the spec: as for the local frames; the universal table is searched when the
  mode names no scope or names UNIVERSAL.
\<close>

definition search_universal :: "env_mode_flags_t \<Rightarrow> bool" where
  "search_universal mode = (\<not> has_scope mode \<or> has_flag mode ENV_UNIVERSAL)"

text \<open>
  Modelled from the spec: the body of \<^verbatim>\<open>env_get\<close> is missing. Section 4.2, \<open>get(name, mode)\<close>:
  the first present entity in the order local frames, global frame, universal table, among
  the scopes the mode selects; the missing entity when there is none.
\<close>

definition env_get :: "env_stack_t \<Rightarrow> wcstring \<Rightarrow> env_mode_flags_t \<Rightarrow> env_var_t" where
  "env_get st key mode =
     (case (if search_local mode then find_local (locals st) key else None) of
        Some e \<Rightarrow> e
      | None \<Rightarrow>
          (case (if search_global mode then find_entry (env (global_env st)) key else None) of
             Some e \<Rightarrow> e
           | None \<Rightarrow>
               (case (if search_universal mode then find_entry (uvars st) key else None) of
                  Some e \<Rightarrow> e
                | None \<Rightarrow> missing_var)))"

text \<open>
  Modelled from the spec: the entity that \<^verbatim>\<open>env_set\<close> stores is missing. Section 4.2: "On
  success, the variable's exported flag is updated from EXPORT/UNEXPORT flags when present,
  left unchanged otherwise"; a new variable is not exported, as the constructors of
  \<^verbatim>\<open>env_var_t\<close> have it.
\<close>

definition new_entity :: "env_var_t option \<Rightarrow> env_mode_flags_t \<Rightarrow> wcstring \<Rightarrow> env_var_t" where
  "new_entity old mode v =
     (env_var v)\<lparr>exportv :=
        (if has_flag mode ENV_EXPORT then True
         else if has_flag mode ENV_UNEXPORT then False
         else (case old of None \<Rightarrow> False | Some e \<Rightarrow> exportv e))\<rparr>"

text \<open>
  Modelled from the spec: the store into one table is missing. The entity stored replaces
  the one the table held for the name.
\<close>

definition put_table ::
  "var_table_t \<Rightarrow> wcstring \<Rightarrow> env_mode_flags_t \<Rightarrow> wcstring \<Rightarrow> var_table_t" where
  "put_table t key mode v = t(key \<mapsto> new_entity (t key) mode v)"

text \<open>Modelled from the spec: the store into the table of one frame is missing.\<close>

definition put_node ::
  "env_node_t \<Rightarrow> wcstring \<Rightarrow> env_mode_flags_t \<Rightarrow> wcstring \<Rightarrow> env_node_t" where
  "put_node f key mode v = f\<lparr>env := put_table (env f) key mode v\<rparr>"

text \<open>
  Modelled from the spec: the update of an existing local binding is missing. Section 4.2:
  a set without a scope flag does "update existing binding's current scope"; the binding is
  the one the lookup finds.
\<close>

fun put_local ::
  "env_node_t list \<Rightarrow> wcstring \<Rightarrow> env_mode_flags_t \<Rightarrow> wcstring \<Rightarrow> env_node_t list" where
  "put_local [] key mode v = []"
| "put_local (f # fs) key mode v =
     (case find_entry (env f) key of
        Some e \<Rightarrow> put_node f key mode v # fs
      | None \<Rightarrow> if new_scope f then f # fs else f # put_local fs key mode v)"

text \<open>
  Modelled from the spec: the creation of a variable is missing. Section 4.2: "else create in
  innermost local frame"; section 3: "the top frame is the current local scope, the bottom is
  the process-global scope", so with no frame pushed the top frame is the global one.
\<close>

definition put_top ::
  "env_stack_t \<Rightarrow> wcstring \<Rightarrow> env_mode_flags_t \<Rightarrow> wcstring \<Rightarrow> env_stack_t" where
  "put_top st key mode v =
     (case locals st of
        [] \<Rightarrow> st\<lparr>global_env := put_node (global_env st) key mode v\<rparr>
      | f # fs \<Rightarrow> st\<lparr>locals := put_node f key mode v # fs\<rparr>)"

text \<open>
  Modelled from the spec: the test for "two mutually exclusive scope flags" is missing. The
  number of scope flags (LOCAL, GLOBAL, UNIVERSAL) a mode carries.
\<close>

definition scope_flag_count :: "env_mode_flags_t \<Rightarrow> nat" where
  "scope_flag_count mode =
     length (filter (has_flag mode) [ENV_LOCAL, ENV_GLOBAL, ENV_UNIVERSAL])"

text \<open>
  Modelled from the spec: the body of \<^verbatim>\<open>env_set\<close> is missing. Section 4.2,
  \<open>set(name, mode, value)\<close>: INVALID "when the name fails identifier validation"; SCOPE "when
  mode requests two mutually exclusive scope flags ... or targets a nonexistent explicit
  scope" (the local scope, while no local frame is pushed); PERM "when a USER-flagged request
  targets a read-only variable"; otherwise the target is the scope the flag names, and without
  a scope flag "update existing binding's current scope, else create in innermost local
  frame". The spec gives the three refusals no order; the order below matters only for a
  request that earns two of them. The declaration passes the value as \<^verbatim>\<open>const wchar_t *\<close>: the
  argument here is the string it points to. The caches the spec ties to particular names
  (working directory, read limit, export array) are not part of the state.
\<close>

definition env_set ::
  "env_config \<Rightarrow> env_stack_t \<Rightarrow> wcstring \<Rightarrow> env_mode_flags_t \<Rightarrow> wcstring \<Rightarrow> int \<times> env_stack_t" where
  "env_set cfg st key mode v =
     (if \<not> valid_var_name cfg key then (ENV_INVALID, st)
      else if 1 < scope_flag_count mode then (ENV_SCOPE, st)
      else if has_flag mode ENV_LOCAL \<and> locals st = [] then (ENV_SCOPE, st)
      else if has_flag mode ENV_USER \<and> is_read_only cfg key then (ENV_PERM, st)
      else if has_flag mode ENV_LOCAL then (ENV_OK, put_top st key mode v)
      else if has_flag mode ENV_GLOBAL then
        (ENV_OK, st\<lparr>global_env := put_node (global_env st) key mode v\<rparr>)
      else if has_flag mode ENV_UNIVERSAL then
        (ENV_OK, st\<lparr>uvars := put_table (uvars st) key mode v\<rparr>)
      else if find_local (locals st) key \<noteq> None then
        (ENV_OK, st\<lparr>locals := put_local (locals st) key mode v\<rparr>)
      else if find_entry (env (global_env st)) key \<noteq> None then
        (ENV_OK, st\<lparr>global_env := put_node (global_env st) key mode v\<rparr>)
      else if find_entry (uvars st) key \<noteq> None then
        (ENV_OK, st\<lparr>uvars := put_table (uvars st) key mode v\<rparr>)
      else (ENV_OK, put_top st key mode v))"

text \<open>Modelled from the spec: the erasure from one table is missing.\<close>

definition erase_table :: "var_table_t \<Rightarrow> wcstring \<Rightarrow> var_table_t" where
  "erase_table t key = t(key := None)"

text \<open>Modelled from the spec: the erasure from the table of one frame is missing.\<close>

definition erase_node :: "env_node_t \<Rightarrow> wcstring \<Rightarrow> env_node_t" where
  "erase_node f key = f\<lparr>env := erase_table (env f) key\<rparr>"

text \<open>
  Modelled from the spec: the erasure from the local frames is missing. The frames erased
  from are the ones a lookup reaches: from the top frame down to the first frame that
  introduces a new scope.
\<close>

fun erase_local :: "env_node_t list \<Rightarrow> wcstring \<Rightarrow> env_node_t list" where
  "erase_local [] key = []"
| "erase_local (f # fs) key =
     erase_node f key # (if new_scope f then fs else erase_local fs key)"

text \<open>
  Modelled from the spec: the body of \<^verbatim>\<open>env_remove\<close> is missing. Section 4.2,
  \<open>remove(name, mode) -> {0 if existed, nonzero if not}\<close>, where "USER-originated removals
  additionally fail against read-only variables (reported as an error, not as a silent
  no-op)"; the comment of the declaration: "The mode may also specify the scope of the
  variable that should be erased"; section 8: "remove on a previously-set variable returns 0
  and a subsequent get returns missing". The variable existed when get with the mode returns
  a present entity, and a removal leaves no binding of the name in the scopes the mode
  selects, so that the get which follows returns missing. The spec fixes no value for the
  failures: 2 stands for the refused removal, 1 for the name that did not exist. The
  declaration passes the mode as \<^verbatim>\<open>int\<close>; only its bits are read.
\<close>

definition env_remove ::
  "env_config \<Rightarrow> env_stack_t \<Rightarrow> wcstring \<Rightarrow> env_mode_flags_t \<Rightarrow> int \<times> env_stack_t" where
  "env_remove cfg st key mode =
     (if has_flag mode ENV_USER \<and> is_read_only cfg key then (2, st)
      else if missing (env_get st key mode) then (1, st)
      else (0, st\<lparr>locals := (if search_local mode then erase_local (locals st) key
                                else locals st),
                    global_env := (if search_global mode then erase_node (global_env st) key
                                   else global_env st),
                    uvars := (if search_universal mode then erase_table (uvars st) key
                              else uvars st)\<rparr>))"

text \<open>
  Modelled from the spec: the body of \<^verbatim>\<open>env_push\<close> is missing. Section 4.2: "push always
  creates a frame boundary", and the frame records whether it introduces a new scope.
\<close>

definition env_push :: "bool \<Rightarrow> env_stack_t \<Rightarrow> env_stack_t" where
  "env_push scope st = st\<lparr>locals := \<lparr>env = Map.empty, new_scope = scope\<rparr> # locals st\<rparr>"


section \<open>Snapshots\<close>

text \<open>
  Modelled from the spec: the members of \<^verbatim>\<open>env_vars_snapshot_t\<close> other than the field
  \<^verbatim>\<open>std::map<wcstring, wcstring> vars\<close> are missing. Section 3: "an immutable name-to-string
  mapping captured from the resolved view at a point in time". The header also declares the
  test \<^verbatim>\<open>is_current()\<close>, which tells the live object \<^verbatim>\<open>current()\<close> from a capture; it is a
  field here.
\<close>

record env_vars_snapshot_t =
  vars :: "wcstring \<rightharpoonup> wcstring"
  is_current :: bool

text \<open>
  Modelled from the spec: the resolved view is missing. The value that a get without flags
  returns for each name, where it returns a present entity.
\<close>

definition resolved_view :: "env_stack_t \<Rightarrow> wcstring \<rightharpoonup> wcstring" where
  "resolved_view st key =
     (let v = env_get st key ENV_DEFAULT in if missing v then None else Some (val v))"

text \<open>
  Modelled from the spec: the bodies of the two constructors are missing. Section 4.4:
  \<open>snapshot(keys: optional set of string)\<close> "captures either the full resolved view or a
  restricted subset".
\<close>

definition snapshot :: "env_stack_t \<Rightarrow> wcstring list option \<Rightarrow> env_vars_snapshot_t" where
  "snapshot st keys =
     \<lparr>vars = (case keys of
                None \<Rightarrow> resolved_view st
              | Some ks \<Rightarrow> (\<lambda>key. if key \<in> set ks then resolved_view st key else None)),
      is_current = False\<rparr>"

text \<open>
  Modelled from the spec: the body of \<^verbatim>\<open>current()\<close> is missing. Its declaration says: "Returns
  the fake snapshot representing the live variables array". It is no capture.
\<close>

definition current :: env_vars_snapshot_t where
  "current = \<lparr>vars = Map.empty, is_current = True\<rparr>"

text \<open>
  Modelled from the spec: the body of \<^verbatim>\<open>env_vars_snapshot_t::get\<close> is missing. A capture
  answers from its own mapping, with the missing entity for a name it does not hold; the live
  object answers from the live variables, which are therefore an argument.
\<close>

definition snapshot_get :: "env_stack_t \<Rightarrow> env_vars_snapshot_t \<Rightarrow> wcstring \<Rightarrow> env_var_t" where
  "snapshot_get live s key =
     (if is_current s then env_get live key ENV_DEFAULT
      else (case vars s key of None \<Rightarrow> missing_var | Some v \<Rightarrow> env_var v))"

text \<open>A configuration for the examples: names are non-empty, and \<open>status\<close> is read-only.\<close>

definition example_config :: env_config where
  "example_config = \<lparr>valid_var_name = (\<lambda>n. n \<noteq> []), is_read_only = (\<lambda>n. n = L ''status'')\<rparr>"

text \<open>
  Two states for the examples. In \<open>shadowed_stack\<close> the global frame binds \<open>x\<close> and \<open>z\<close>; above
  it a caller's frame binds \<open>x\<close>, and above that a frame that introduces a new scope binds \<open>x\<close>
  again. In \<open>status_stack\<close> the read-only name \<open>status\<close> was set by a request that does not
  come from the user.
\<close>

definition shadowed_stack :: env_stack_t where
  "shadowed_stack =
     snd (env_set example_config
       (env_push True
         (snd (env_set example_config
           (env_push False
             (snd (env_set example_config
               (snd (env_set example_config initial_stack (L ''x'') ENV_GLOBAL (L ''outer'')))
               (L ''z'') ENV_GLOBAL (L ''other''))))
           (L ''x'') ENV_LOCAL (L ''caller''))))
       (L ''x'') ENV_LOCAL (L ''inner''))"

definition status_stack :: env_stack_t where
  "status_stack = snd (env_set example_config initial_stack (L ''status'') ENV_DEFAULT (L ''0''))"

section \<open>Facts about the definitions\<close>

lemma has_flag_default: "has_flag ENV_DEFAULT f = False"
  by (simp add: has_flag_def ENV_DEFAULT_def)

lemma default_searches:
  "search_local ENV_DEFAULT" "search_global ENV_DEFAULT" "search_universal ENV_DEFAULT"
  by (simp_all add: search_local_def search_global_def search_universal_def has_scope_def
      has_flag_default)

lemma scope_flag_count_default: "scope_flag_count ENV_DEFAULT = 0"
  by (simp add: scope_flag_count_def has_flag_default)

lemma new_entity_present: "\<not> missing (new_entity old mode v)" "val (new_entity old mode v) = v"
  by (simp_all add: new_entity_def env_var_def missing_def)

lemma missing_missing_var: "missing missing_var" "val missing_var = []"
  by (simp_all add: missing_var_def set_missing_def missing_def env_var_default_def)

lemma find_entry_put_table:
  "find_entry (put_table t key mode v) key = Some (new_entity (t key) mode v)"
  by (simp add: find_entry_def put_table_def new_entity_present)


lemma find_entry_present: "find_entry t key = Some e \<Longrightarrow> \<not> missing e"
  by (auto simp: find_entry_def split: option.splits if_splits)

lemma find_local_present: "find_local fs key = Some e \<Longrightarrow> \<not> missing e"
  by (induction fs) (auto split: option.splits if_splits dest: find_entry_present)

text \<open>An update of the binding a lookup finds is what the next lookup finds.\<close>

lemma find_local_put_local:
  "find_local fs key \<noteq> None \<Longrightarrow>
   \<exists>old. find_local (put_local fs key mode v) key = Some (new_entity old mode v)"
proof (induction fs)
  case Nil
  then show ?case by simp
next
  case (Cons f fs)
  then show ?case
    by (cases "find_entry (env f) key") (auto simp: put_node_def find_entry_put_table)
qed

lemma env_get_found_local:
  "find_local (locals st) key = Some e \<Longrightarrow> env_get st key ENV_DEFAULT = e"
  by (simp add: env_get_def default_searches)

lemma env_get_found_global:
  "find_local (locals st) key = None \<Longrightarrow> find_entry (env (global_env st)) key = Some e \<Longrightarrow>
   env_get st key ENV_DEFAULT = e"
  by (simp add: env_get_def default_searches)

lemma env_get_found_universal:
  "find_local (locals st) key = None \<Longrightarrow> find_entry (env (global_env st)) key = None \<Longrightarrow>
   find_entry (uvars st) key = Some e \<Longrightarrow> env_get st key ENV_DEFAULT = e"
  by (simp add: env_get_def default_searches)

text \<open>
  A set without flags leaves the entity it stored where a get without flags looks first:
  by cases on the scope that bound the name before.
\<close>

lemma env_set_default_get:
  assumes valid: "valid_var_name cfg n"
  shows "\<exists>old. env_get (snd (env_set cfg st n ENV_DEFAULT v)) n ENV_DEFAULT
               = new_entity old ENV_DEFAULT v"
proof (cases "find_local (locals st) n")
  case (Some e)
  then obtain old where
    "find_local (put_local (locals st) n ENV_DEFAULT v) n = Some (new_entity old ENV_DEFAULT v)"
    using find_local_put_local [of "locals st" n ENV_DEFAULT v] by auto
  with Some valid show ?thesis
    by (auto simp: env_set_def scope_flag_count_default has_flag_default
          intro!: exI env_get_found_local)
next
  case None
  note no_local = None
  show ?thesis
  proof (cases "find_entry (env (global_env st)) n")
    case (Some e)
    with no_local valid show ?thesis
      by (auto simp: env_set_def scope_flag_count_default has_flag_default put_node_def
            find_entry_put_table intro!: exI env_get_found_global)
  next
    case None
    note no_global = None
    show ?thesis
    proof (cases "find_entry (uvars st) n")
      case (Some e)
      with no_local no_global valid show ?thesis
        by (auto simp: env_set_def scope_flag_count_default has_flag_default
              find_entry_put_table intro!: exI env_get_found_universal)
    next
      case None
      show ?thesis
      proof (cases "locals st")
        case Nil
        with no_local no_global None valid show ?thesis
          by (auto simp: env_set_def scope_flag_count_default has_flag_default put_top_def
                put_node_def find_entry_put_table intro!: exI env_get_found_global)
      next
        case (Cons f fs)
        with no_local no_global None valid show ?thesis
          by (auto simp: env_set_def scope_flag_count_default has_flag_default put_top_def
                put_node_def find_entry_put_table intro!: exI env_get_found_local)
      qed
    qed
  qed
qed














text \<open>The flags are single bits, so a bitwise OR of flags carries exactly its operands.\<close>

lemma has_flag_or: "has_flag (a OR b) f \<longleftrightarrow> has_flag a f \<or> has_flag b f"
  by (auto simp: has_flag_def bit.conj_disj_distrib2 or_eq_0_iff)

lemma has_flag_single:
  "f \<in> set env_flags \<Longrightarrow> g \<in> set env_flags \<Longrightarrow> has_flag g f \<longleftrightarrow> g = f"
  by (auto simp: env_flags_def has_flag_def ENV_LOCAL_def ENV_EXPORT_def ENV_GLOBAL_def
      ENV_USER_def ENV_UNEXPORT_def ENV_UNIVERSAL_def)

lemma has_flag_combine:
  "set fs \<subseteq> set env_flags \<Longrightarrow> f \<in> set env_flags \<Longrightarrow> has_flag (combine fs) f \<longleftrightarrow> f \<in> set fs"
proof (induction fs)
  case Nil
  then show ?case by (simp add: combine_def has_flag_default)
next
  case (Cons g fs)
  then show ?case
    using has_flag_single [of f g] by (auto simp: combine_def has_flag_or)
qed

text \<open>The live object \<open>current\<close> is not a capture: its get follows the live variables.\<close>

lemma current_reads_live: "snapshot_get live current key = env_get live key ENV_DEFAULT"
  by (simp add: snapshot_get_def current_def)

lemma env_get_missing_var:
  "missing (env_get st key mode) \<Longrightarrow> env_get st key mode = missing_var"
  by (auto simp: env_get_def split: option.splits if_splits
      dest: find_entry_present find_local_present)

text \<open>The definitions a closed example unfolds.\<close>

lemmas flag_defs = ENV_DEFAULT_def ENV_LOCAL_def ENV_EXPORT_def ENV_GLOBAL_def ENV_USER_def
  ENV_UNEXPORT_def ENV_UNIVERSAL_def has_flag_def has_scope_def search_local_def
  search_global_def search_universal_def scope_flag_count_def

lemmas resolver_defs = example_config_def initial_stack_def shadowed_stack_def status_stack_def
  env_set_def env_get_def env_remove_def env_push_def put_top_def put_node_def put_table_def
  new_entity_def env_var_def erase_node_def erase_table_def find_entry_def missing_def
  ENV_OK_def L_def

section \<open>The variable entity\<close>

text \<open>
  C2, as amended. For all entities \<open>a\<close> and \<open>b\<close>, \<open>a == b\<close> holds if and only if the two have
  the same missing flag and equal stored strings: both missing with equal stored strings, or
  both present with equal values. The exported flag never affects the result.
\<close>

theorem env_var_eq_fields:
  "(env_var_eq a b \<longleftrightarrow>
      (missing a \<and> missing b \<and> val a = val b) \<or> (\<not> missing a \<and> \<not> missing b \<and> val a = val b))
   \<and> env_var_eq (a\<lparr>exportv := x\<rparr>) (b\<lparr>exportv := y\<rparr>) = env_var_eq a b"
  by (auto simp: env_var_eq_def missing_def)

theorem env_var_eq_fields_witness:
  "\<not> missing (env_var (L ''x'')) \<and> \<not> missing ((env_var (L ''x''))\<lparr>exportv := True\<rparr>)
   \<and> env_var_eq (env_var (L ''x'')) ((env_var (L ''x''))\<lparr>exportv := True\<rparr>)
   \<and> missing (set_missing env_var_default)
   \<and> env_var_eq (set_missing env_var_default) (set_missing env_var_default)"
  using env_var_eq_fields [of "env_var (L ''x'')" "(env_var (L ''x''))\<lparr>exportv := True\<rparr>" True True]
    env_var_eq_fields [of "set_missing env_var_default" "set_missing env_var_default" True True]
  by (simp add: missing_def env_var_def set_missing_def env_var_default_def)

text \<open>
  The statement with "both are missing" alone fails: an entity built from \<open>x\<close> and one built
  from \<open>y\<close>, each then marked missing, are both missing and compare unequal.
\<close>

theorem env_var_eq_counterexample:
  "missing (set_missing (env_var (L ''x''))) \<and> missing (set_missing (env_var (L ''y'')))
   \<and> \<not> env_var_eq (set_missing (env_var (L ''x''))) (set_missing (env_var (L ''y'')))"
  by (simp add: env_var_eq_def missing_def set_missing_def env_var_def L_def)

text \<open>
  C3. For every entity, \<open>missing_or_empty()\<close> is true exactly when the entity is missing, or
  its value is the empty string, or its value is the null sentinel, the one-character string
  \<open>0x1d\<close>; it is false in every other case.
\<close>

theorem missing_or_empty_iff:
  "(missing_or_empty v \<longleftrightarrow> missing v \<or> val v = [] \<or> val v = ENV_NULL) \<and> ENV_NULL = [0x1d]"
  by (simp add: missing_or_empty_def empty_var_def ENV_NULL_def)

theorem missing_or_empty_iff_witness:
  "missing_or_empty missing_var \<and> missing_or_empty (env_var [])
   \<and> missing_or_empty (env_var ENV_NULL)
   \<and> \<not> missing_or_empty (env_var (L ''a'')) \<and> \<not> missing_or_empty (env_var ARRAY_SEP_STR)"
proof -
  note iff = missing_or_empty_iff [THEN conjunct1]
  show ?thesis
    by (simp add: iff missing_def missing_var_def set_missing_def env_var_default_def
        env_var_def ENV_NULL_def ARRAY_SEP_STR_def L_def)
qed

text \<open>
  C4. On an entity whose missing flag is true, \<open>set_val\<close> with any string argument, in either
  overload, ends in the failed assertion; on a present entity it succeeds and replaces the
  value, leaving the two flags as they were.
\<close>

theorem set_val_asserts:
  "(missing v \<longrightarrow> set_val v s = Inl Assertion_failed \<and> set_val_cstr v c = Inl Assertion_failed)
   \<and> (\<not> missing v \<longrightarrow> set_val v s = Inr (v\<lparr>val := s\<rparr>)
                      \<and> set_val_cstr v c = Inr (v\<lparr>val := c_str_contents c\<rparr>))"
  by (simp add: set_val_def set_val_cstr_def missing_def)

theorem set_val_asserts_witness:
  "missing (set_missing (env_var (L ''a'')))
   \<and> set_val (set_missing (env_var (L ''a''))) (L ''b'') = Inl Assertion_failed
   \<and> set_val_cstr (set_missing (env_var (L ''a''))) [0x62, 0, 0x63] = Inl Assertion_failed
   \<and> \<not> missing (env_var (L ''a''))
   \<and> set_val (env_var (L ''a'')) (L ''b'') = Inr (env_var (L ''b''))
   \<and> set_val_cstr (env_var (L ''a'')) [0x62, 0, 0x63] = Inr (env_var (L ''b''))"
  using set_val_asserts [of "set_missing (env_var (L ''a''))" "L ''b''" "[0x62, 0, 0x63]"]
    set_val_asserts [of "env_var (L ''a'')" "L ''b''" "[0x62, 0, 0x63]"]
  by (simp add: missing_def set_missing_def env_var_def L_def c_str_contents_def)

text \<open>
  C10. \<open>operator!=\<close> between entities compares the stored strings only and ignores the missing
  flag, so it is not the negation of \<open>operator==\<close>: a missing entity and a present one with
  the same stored string are neither \<open>==\<close> nor \<open>!=\<close>.
\<close>

theorem ne_ignores_missing:
  "env_var_ne a b = (val a \<noteq> val b)
   \<and> env_var_ne (a\<lparr>is_missing := m\<rparr>) (b\<lparr>is_missing := m'\<rparr>) = env_var_ne a b
   \<and> missing (set_missing (env_var (L ''x''))) \<and> \<not> missing (env_var (L ''x''))
   \<and> val (set_missing (env_var (L ''x''))) = val (env_var (L ''x''))
   \<and> \<not> env_var_eq (set_missing (env_var (L ''x''))) (env_var (L ''x''))
   \<and> \<not> env_var_ne (set_missing (env_var (L ''x''))) (env_var (L ''x''))"
  by (simp add: env_var_ne_def env_var_eq_def missing_def set_missing_def env_var_def)

section \<open>The constants\<close>

text \<open>
  C6. The mode flags have the values DEFAULT = 0, LOCAL = 1, EXPORT = 2, GLOBAL = 4, USER = 8,
  UNEXPORT = 16, UNIVERSAL = 32, and a combination of flags is the bitwise OR of their values:
  the OR of any selection of the flags carries a flag exactly when the flag was selected.
\<close>

theorem mode_flag_values:
  "ENV_DEFAULT = 0 \<and> ENV_LOCAL = 1 \<and> ENV_EXPORT = 2 \<and> ENV_GLOBAL = 4 \<and> ENV_USER = 8
   \<and> ENV_UNEXPORT = 16 \<and> ENV_UNIVERSAL = 32
   \<and> (set fs \<subseteq> set env_flags \<and> f \<in> set env_flags \<longrightarrow>
        (has_flag (combine fs) f \<longleftrightarrow> f \<in> set fs))"
  using has_flag_combine [of fs f]
  by (simp add: ENV_DEFAULT_def ENV_LOCAL_def ENV_EXPORT_def ENV_GLOBAL_def ENV_USER_def
      ENV_UNEXPORT_def ENV_UNIVERSAL_def)

theorem mode_flag_values_witness:
  "set [ENV_LOCAL, ENV_EXPORT] \<subseteq> set env_flags \<and> ENV_EXPORT \<in> set env_flags
   \<and> ENV_GLOBAL \<in> set env_flags
   \<and> has_flag (combine [ENV_LOCAL, ENV_EXPORT]) ENV_EXPORT
   \<and> \<not> has_flag (combine [ENV_LOCAL, ENV_EXPORT]) ENV_GLOBAL"
proof -
  have sub: "set [ENV_LOCAL, ENV_EXPORT] \<subseteq> set env_flags"
    and e: "ENV_EXPORT \<in> set env_flags" and g: "ENV_GLOBAL \<in> set env_flags"
    by (simp_all add: env_flags_def)
  have ein: "ENV_EXPORT \<in> set [ENV_LOCAL, ENV_EXPORT]" by simp
  have gout: "ENV_GLOBAL \<notin> set [ENV_LOCAL, ENV_EXPORT]"
    by (simp add: ENV_GLOBAL_def ENV_LOCAL_def ENV_EXPORT_def)
  from mode_flag_values [of "[ENV_LOCAL, ENV_EXPORT]" ENV_EXPORT] sub e ein
  have "has_flag (combine [ENV_LOCAL, ENV_EXPORT]) ENV_EXPORT" by blast
  moreover from mode_flag_values [of "[ENV_LOCAL, ENV_EXPORT]" ENV_GLOBAL] sub g gout
  have "\<not> has_flag (combine [ENV_LOCAL, ENV_EXPORT]) ENV_GLOBAL" by blast
  ultimately show ?thesis using sub e g by blast
qed

text \<open>
  C7. The result codes of set have the integer values OK = 0, PERM = 1, SCOPE = 2,
  INVALID = 3.
\<close>

theorem set_result_codes: "ENV_OK = 0 \<and> ENV_PERM = 1 \<and> ENV_SCOPE = 2 \<and> ENV_INVALID = 3"
  by (simp add: ENV_OK_def ENV_PERM_def ENV_SCOPE_def ENV_INVALID_def)

section \<open>The resolver\<close>

text \<open>
  C1, as amended. For every name \<open>n\<close> that passes the validation of names and every string
  \<open>v\<close>, a set of \<open>n\<close> to \<open>v\<close> without flags succeeds, and the get of \<open>n\<close> without flags that
  follows returns an entity that is present and whose value is \<open>v\<close>; this holds from every
  state of the scope stack, whichever scope bound \<open>n\<close> before, and when none did. For a name
  that fails the validation, the set returns INVALID and changes nothing.
\<close>

theorem set_then_get:
  "(valid_var_name cfg n \<longrightarrow>
        fst (env_set cfg st n ENV_DEFAULT v) = ENV_OK
      \<and> \<not> missing (env_get (snd (env_set cfg st n ENV_DEFAULT v)) n ENV_DEFAULT)
      \<and> val (env_get (snd (env_set cfg st n ENV_DEFAULT v)) n ENV_DEFAULT) = v)
   \<and> (\<not> valid_var_name cfg n \<longrightarrow> env_set cfg st n ENV_DEFAULT v = (ENV_INVALID, st))"
proof (intro conjI impI)
  assume valid: "valid_var_name cfg n"
  then show "fst (env_set cfg st n ENV_DEFAULT v) = ENV_OK"
    by (simp add: env_set_def scope_flag_count_default has_flag_default)
  obtain old where
    "env_get (snd (env_set cfg st n ENV_DEFAULT v)) n ENV_DEFAULT = new_entity old ENV_DEFAULT v"
    using env_set_default_get [OF valid] by blast
  then show "\<not> missing (env_get (snd (env_set cfg st n ENV_DEFAULT v)) n ENV_DEFAULT)"
    and "val (env_get (snd (env_set cfg st n ENV_DEFAULT v)) n ENV_DEFAULT) = v"
    by (simp_all add: new_entity_present)
next
  assume "\<not> valid_var_name cfg n"
  then show "env_set cfg st n ENV_DEFAULT v = (ENV_INVALID, st)"
    by (simp add: env_set_def)
qed

theorem set_then_get_witness:
  "valid_var_name example_config (L ''PATH'')
   \<and> fst (env_set example_config initial_stack (L ''PATH'') ENV_DEFAULT (L ''/bin'')) = ENV_OK
   \<and> \<not> missing (env_get (snd (env_set example_config initial_stack (L ''PATH'') ENV_DEFAULT (L ''/bin'')))
                   (L ''PATH'') ENV_DEFAULT)
   \<and> val (env_get (snd (env_set example_config initial_stack (L ''PATH'') ENV_DEFAULT (L ''/bin'')))
            (L ''PATH'') ENV_DEFAULT) = L ''/bin''
   \<and> \<not> valid_var_name example_config []
   \<and> env_set example_config initial_stack [] ENV_DEFAULT (L ''v'') = (ENV_INVALID, initial_stack)"
proof -
  have yes: "valid_var_name example_config (L ''PATH'')"
    and no: "\<not> valid_var_name example_config []"
    by (simp_all add: example_config_def L_def)
  from yes no set_then_get [of example_config "L ''PATH''" initial_stack "L ''/bin''"]
    set_then_get [of example_config "[]" initial_stack "L ''v''"]
  show ?thesis by blast
qed

text \<open>
  The statement for every name fails: the empty name does not pass the validation of the
  example configuration, the set returns INVALID, and the get that follows returns missing.
\<close>

theorem set_then_get_counterexample:
  "fst (env_set example_config initial_stack [] ENV_DEFAULT (L ''v'')) = ENV_INVALID
   \<and> missing (env_get (snd (env_set example_config initial_stack [] ENV_DEFAULT (L ''v'')))
               [] ENV_DEFAULT)"
  by (simp add: resolver_defs flag_defs missing_var_def set_missing_def env_var_default_def)






section \<open>Snapshots are copies\<close>

text \<open>
  C5. A snapshot captured from the resolved view does not change after its creation: for
  every key, its get returns the same entity whatever the live scope stack has become, in
  particular after any set applied to the stack the snapshot was taken from; what the full
  snapshot returns is the value the live view had when the snapshot was taken.
\<close>

theorem snapshot_isolation:
  "snapshot_get live (snapshot st keys) key = snapshot_get st (snapshot st keys) key
   \<and> snapshot_get (snd (env_set cfg st n mode v)) (snapshot st keys) key
       = snapshot_get st (snapshot st keys) key
   \<and> val (snapshot_get (snd (env_set cfg st n mode v)) (snapshot st None) key)
       = val (env_get st key ENV_DEFAULT)
   \<and> missing (snapshot_get (snd (env_set cfg st n mode v)) (snapshot st None) key)
       = missing (env_get st key ENV_DEFAULT)"
  using env_get_missing_var [of st key ENV_DEFAULT]
  by (auto simp: snapshot_get_def snapshot_def resolved_view_def Let_def missing_missing_var
      env_var_def missing_def)

theorem snapshot_isolation_witness:
  "val (env_get status_stack (L ''status'') ENV_DEFAULT) = L ''0''
   \<and> fst (env_set example_config status_stack (L ''status'') ENV_DEFAULT (L ''1'')) = ENV_OK
   \<and> val (env_get (snd (env_set example_config status_stack (L ''status'') ENV_DEFAULT (L ''1'')))
             (L ''status'') ENV_DEFAULT) = L ''1''
   \<and> val (snapshot_get (snd (env_set example_config status_stack (L ''status'') ENV_DEFAULT (L ''1'')))
             (snapshot status_stack None) (L ''status'')) = L ''0''
   \<and> \<not> missing (snapshot_get (snd (env_set example_config status_stack (L ''status'') ENV_DEFAULT (L ''1'')))
             (snapshot status_stack None) (L ''status''))"
proof -
  have before: "val (env_get status_stack (L ''status'') ENV_DEFAULT) = L ''0''"
     "\<not> missing (env_get status_stack (L ''status'') ENV_DEFAULT)"
    by (simp_all add: resolver_defs flag_defs)
  have after: "fst (env_set example_config status_stack (L ''status'') ENV_DEFAULT (L ''1'')) = ENV_OK"
    "val (env_get (snd (env_set example_config status_stack (L ''status'') ENV_DEFAULT (L ''1'')))
             (L ''status'') ENV_DEFAULT) = L ''1''"
    by (simp_all add: resolver_defs flag_defs)
  let ?later = "snd (env_set example_config status_stack (L ''status'') ENV_DEFAULT (L ''1''))"
  note s = snapshot_isolation [of status_stack status_stack None "L ''status''" example_config
      "L ''status''" ENV_DEFAULT "L ''1''"]
  from s have v: "val (snapshot_get ?later (snapshot status_stack None) (L ''status''))
      = val (env_get status_stack (L ''status'') ENV_DEFAULT)"
    by blast
  from s have m: "missing (snapshot_get ?later (snapshot status_stack None) (L ''status''))
      = missing (env_get status_stack (L ''status'') ENV_DEFAULT)"
    by blast
  show ?thesis unfolding v m using before after by blast
qed

end
